theory Spec2Isabelle
  imports Complex_Main "HOL-Library.AList"
begin

section \<open>Grading engine of the answer-assessment backend\<close>

text \<open>
  The development follows \<^verbatim>\<open>backend/app/scorer.py\<close>, \<^verbatim>\<open>enhanced_scorer.py\<close>,
  \<^verbatim>\<open>services/assessment_service.py\<close>, \<^verbatim>\<open>services/batch_service.py\<close>,
  \<^verbatim>\<open>services/paper_service.py\<close> and \<^verbatim>\<open>crud/paper_crud.py\<close>.

  Modelling conventions.
  \<^item> Python \<^verbatim>\<open>float\<close> values are modelled as \<^typ>\<open>real\<close> and float arithmetic as exact
    arithmetic; Python \<^verbatim>\<open>int\<close> is \<^typ>\<open>int\<close>.
  \<^item> Text is a \<^typ>\<open>string\<close>, one \<^typ>\<open>char\<close> per code point below 256.
  \<^item> The sentence encoder (\<^verbatim>\<open>app.model.encode_text\<close>, an external neural model) and
    scikit-learn's \<^verbatim>\<open>cosine_similarity\<close> are parameters \<open>enc\<close> and \<open>cosine\<close>
    of every function that calls them; \<^verbatim>\<open>encode_texts\<close> is \<open>map enc\<close>.
  \<^item> A raised exception is the \<open>Inl\<close> branch of a sum type.
\<close>

subsection \<open>Python primitives\<close>

datatype py_error = TypeError | ValueError | KeyError | ZeroDivisionError

text \<open>\<^verbatim>\<open>int(x)\<close> on a float truncates toward zero.\<close>

definition py_int :: "real \<Rightarrow> int" where
  "py_int x = (if 0 \<le> x then \<lfloor>x\<rfloor> else \<lceil>x\<rceil>)"

text \<open>\<^verbatim>\<open>round(x)\<close> rounds to the nearest integer, ties to the even neighbour.\<close>

definition py_round :: "real \<Rightarrow> int" where
  "py_round x =
     (let f = \<lfloor>x\<rfloor>; d = x - of_int f
      in if d < 1 / 2 then f else if 1 / 2 < d then f + 1 else if even f then f else f + 1)"

subsection \<open>\<^verbatim>\<open>scorer.py\<close>\<close>

definition compute_similarity :: "('v \<Rightarrow> 'v \<Rightarrow> real) \<Rightarrow> 'v \<Rightarrow> 'v \<Rightarrow> real" where
  "compute_similarity cosine vec1 vec2 = max 0 (min 1 (cosine vec1 vec2))"

definition map_similarity_to_score :: "real \<Rightarrow> int \<Rightarrow> int" where
  "map_similarity_to_score similarity max_score =
     (if similarity \<ge> 0.80 then max_score
      else if similarity \<ge> 0.60 then py_int (0.7 * of_int max_score)
      else if similarity \<ge> 0.40 then py_int (0.4 * of_int max_score)
      else 0)"


definition generate_feedback :: "real \<Rightarrow> string" where
  "generate_feedback similarity =
     (if similarity \<ge> 0.80 then ''Excellent answer. High semantic similarity to the model answer.''
      else if similarity \<ge> 0.60 then ''Good answer, but missing some important concepts.''
      else if similarity \<ge> 0.40 then ''Fair attempt, but the answer lacks clarity and key ideas.''
      else ''Poor answer. The response is semantically different from the expected answer.'')"

text \<open>\<^verbatim>\<open>assess_answer(student_answer, model_answer, max_score)\<close> returns the
  tuple \<^verbatim>\<open>(similarity, score)\<close>.\<close>

definition assess_answer ::
  "(string \<Rightarrow> 'v) \<Rightarrow> ('v \<Rightarrow> 'v \<Rightarrow> real) \<Rightarrow> string \<Rightarrow> string \<Rightarrow> int \<Rightarrow> real \<times> int" where
  "assess_answer enc cosine student_answer model_answer max_score =
     (let vec_student = enc student_answer;
          vec_model = enc model_answer;
          similarity = compute_similarity cosine vec_student vec_model;
          score = map_similarity_to_score similarity max_score
      in (similarity, score))"

subsection \<open>Strings\<close>

text \<open>\<^verbatim>\<open>str.isspace\<close> on the code points below 256: tab to carriage return, the four
  separators 28 to 31, space, next-line (133) and no-break space (160).\<close>

definition isspace :: "char \<Rightarrow> bool" where
  "isspace c = (let n = (of_char c :: nat)
                in (9 \<le> n \<and> n \<le> 13) \<or> (28 \<le> n \<and> n \<le> 32) \<or> n = 133 \<or> n = 160)"

text \<open>\<^verbatim>\<open>s.strip()\<close>.\<close>

definition strip :: "string \<Rightarrow> string" where
  "strip s = rev (dropWhile isspace (rev (dropWhile isspace s)))"

text \<open>\<^verbatim>\<open>s.split(sep)\<close> for a one-character separator: empty pieces are kept.\<close>

fun split_on :: "char \<Rightarrow> string \<Rightarrow> string list" where
  "split_on sep [] = [[]]"
| "split_on sep (c # cs) =
     (if c = sep then [] # split_on sep cs
      else (case split_on sep cs of [] \<Rightarrow> [[c]] | w # ws \<Rightarrow> (c # w) # ws))"

text \<open>\<^verbatim>\<open>s.split()\<close>: the maximal runs of non-whitespace characters; \<open>cur\<close> is the
  run being read, reversed.\<close>

fun split_ws_from :: "string \<Rightarrow> string \<Rightarrow> string list" where
  "split_ws_from cur [] = (if cur = [] then [] else [rev cur])"
| "split_ws_from cur (c # cs) =
     (if isspace c then (if cur = [] then split_ws_from [] cs else rev cur # split_ws_from [] cs)
      else split_ws_from (c # cur) cs)"

definition split_ws :: "string \<Rightarrow> string list" where
  "split_ws s = split_ws_from [] s"

text \<open>\<^verbatim>\<open>xs[:n]\<close> for an integer \<open>n\<close>; a negative \<open>n\<close> counts from the end.\<close>

definition py_prefix :: "'a list \<Rightarrow> int \<Rightarrow> 'a list" where
  "py_prefix xs n = (if 0 \<le> n then take (nat n) xs else take (length xs - nat (- n)) xs)"

text \<open>\<^verbatim>\<open>round(x, n)\<close> for \<open>n \<ge> 0\<close> decimal places.\<close>

definition py_round_nd :: "real \<Rightarrow> nat \<Rightarrow> real" where
  "py_round_nd x n = of_int (py_round (x * 10 ^ n)) / 10 ^ n"



text \<open>\<^verbatim>\<open>numpy.argmax\<close> of a non-empty row: the first index holding the maximum.\<close>

definition argmax :: "real list \<Rightarrow> nat" where
  "argmax xs = length (takeWhile (\<lambda>x. x \<noteq> Max (set xs)) xs)"

subsection \<open>\<^verbatim>\<open>enhanced_scorer.py\<close>: \<^verbatim>\<open>ConceptMatcher\<close>\<close>

definition concept_threshold :: real where
  "concept_threshold = 0.65"

definition sentences_of :: "string \<Rightarrow> string list" where
  "sentences_of text = map strip (filter (\<lambda>s. strip s \<noteq> []) (split_on CHR ''.'' text))"

definition sub_phrases :: "nat \<Rightarrow> string \<Rightarrow> string list" where
  "sub_phrases min_words sent =
     filter (\<lambda>phrase. length (split_ws phrase) \<ge> min_words) (map strip (split_on CHR '','' sent))"

definition extract_key_phrases :: "string \<Rightarrow> nat \<Rightarrow> string list" where
  "extract_key_phrases text min_words =
     concat (map (\<lambda>sent. (if length (split_ws sent) \<le> 15 then [sent] else [])
                          @ sub_phrases min_words sent)
                 (sentences_of text))"

definition identify_key_concepts :: "string \<Rightarrow> int \<Rightarrow> string list" where
  "identify_key_concepts model_answer top_n =
     (let phrases = extract_key_phrases model_answer 2
      in if int (length phrases) > top_n then py_prefix phrases top_n else phrases)"

record concept_match =
  cm_matched :: bool
  cm_score :: real
  cm_matched_phrase :: "string option"

text \<open>The result dictionary is an association list in insertion order; assigning to a key
  that is already present replaces its value in place (\<^const>\<open>AList.update\<close>).\<close>

definition match_concepts ::
  "(string \<Rightarrow> 'v) \<Rightarrow> ('v \<Rightarrow> 'v \<Rightarrow> real) \<Rightarrow> string list \<Rightarrow> string \<Rightarrow> (string \<times> concept_match) list"
  where
  "match_concepts enc cosine key_concepts student_answer =
     (if key_concepts = [] then []
      else
        let student_phrases = extract_key_phrases student_answer 2
        in if student_phrases = [] then
             fold (\<lambda>concept. AList.update concept
                     \<lparr>cm_matched = False, cm_score = 0, cm_matched_phrase = None\<rparr>)
                  key_concepts []
           else
             let concept_embeddings = map enc key_concepts;
                 student_embeddings = map enc student_phrases;
                 similarity_matrix = map (\<lambda>u. map (cosine u) student_embeddings) concept_embeddings
             in fold (\<lambda>(i, concept) results.
                        let best_match_idx = argmax (similarity_matrix ! i);
                            best_score = similarity_matrix ! i ! best_match_idx
                        in AList.update concept
                             \<lparr>cm_matched = (best_score \<ge> concept_threshold),
                              cm_score = best_score,
                              cm_matched_phrase =
                                (if best_score \<ge> concept_threshold
                                 then Some (student_phrases ! best_match_idx) else None)\<rparr>
                             results)
                     (List.enumerate 0 key_concepts) [])"

subsection \<open>\<^verbatim>\<open>enhanced_scorer.py\<close>: \<^verbatim>\<open>RubricScorer\<close>\<close>

record completeness_result =
  comp_score :: real
  length_ratio :: real
  concept_coverage :: real
  concepts_found :: nat
  total_concepts :: nat

record accuracy_result =
  acc_score :: real
  acc_similarity :: real

record clarity_result =
  clar_score :: real
  avg_sentence_length :: real
  has_punctuation :: bool
  word_count :: nat

definition score_completeness ::
  "(string \<Rightarrow> 'v) \<Rightarrow> ('v \<Rightarrow> 'v \<Rightarrow> real) \<Rightarrow> string \<Rightarrow> string \<Rightarrow> completeness_result" where
  "score_completeness enc cosine model_answer student_answer =
     (let model_len = length (split_ws model_answer);
          student_len = length (split_ws student_answer);
          length_ratio = (if model_len > 0 then min (real student_len / real model_len) 1 else 0);
          key_concepts = identify_key_concepts model_answer 5;
          concept_matches = match_concepts enc cosine key_concepts student_answer;
          matched_count = length (filter cm_matched (map snd concept_matches));
          concept_coverage =
            (if key_concepts \<noteq> [] then real matched_count / real (length key_concepts) else 0);
          completeness = length_ratio * 0.3 + concept_coverage * 0.7
      in \<lparr>comp_score = completeness, length_ratio = length_ratio,
          concept_coverage = concept_coverage, concepts_found = matched_count,
          total_concepts = length key_concepts\<rparr>)"

definition score_accuracy ::
  "(string \<Rightarrow> 'v) \<Rightarrow> ('v \<Rightarrow> 'v \<Rightarrow> real) \<Rightarrow> string \<Rightarrow> string \<Rightarrow> accuracy_result" where
  "score_accuracy enc cosine model_answer student_answer =
     (let model_vec = enc model_answer;
          student_vec = enc student_answer;
          similarity = cosine model_vec student_vec
      in \<lparr>acc_score = max 0 (min 1 similarity), acc_similarity = similarity\<rparr>)"

definition score_clarity :: "string \<Rightarrow> clarity_result" where
  "score_clarity student_answer =
     (let sentences = filter (\<lambda>s. strip s \<noteq> []) (split_on CHR ''.'' student_answer);
          words = split_ws student_answer;
          avg_sent_len = (if sentences \<noteq> [] then real (length words) / real (length sentences) else 0);
          sentence_score =
            (if 10 \<le> avg_sent_len \<and> avg_sent_len \<le> 20 then 1
             else max 0.5 (1 - \<bar>avg_sent_len - 15\<bar> / 30));
          has_punct = list_ex (\<lambda>c. c \<in> set ''.!?,;:'') student_answer;
          punctuation_score = (if has_punct then 1 else 0.5);
          length_score = min (real (length words) / 20) 1;
          clarity = sentence_score * 0.4 + punctuation_score * 0.3 + length_score * 0.3
      in \<lparr>clar_score = clarity, avg_sentence_length = avg_sent_len,
          has_punctuation = has_punct, word_count = length words\<rparr>)"

record rubric_result =
  total_score :: real
  accuracy :: accuracy_result
  completeness :: completeness_result
  clarity :: clarity_result
  rubric_weights :: "string \<rightharpoonup> real"

definition default_weights :: "string \<rightharpoonup> real" where
  "default_weights = [''accuracy'' \<mapsto> 0.5, ''completeness'' \<mapsto> 0.35, ''clarity'' \<mapsto> 0.15]"

text \<open>A weights dictionary without one of the three keys raises \<^verbatim>\<open>KeyError\<close> when the
  weighted total is computed.\<close>

definition score_with_rubric ::
  "(string \<Rightarrow> 'v) \<Rightarrow> ('v \<Rightarrow> 'v \<Rightarrow> real) \<Rightarrow> string \<Rightarrow> string \<Rightarrow> (string \<rightharpoonup> real) option
     \<Rightarrow> py_error + rubric_result" where
  "score_with_rubric enc cosine model_answer student_answer rubric_weights_opt =
     (let weights = (case rubric_weights_opt of None \<Rightarrow> default_weights | Some w \<Rightarrow> w);
          acc = score_accuracy enc cosine model_answer student_answer;
          comp = score_completeness enc cosine model_answer student_answer;
          clar = score_clarity student_answer
      in case (weights ''accuracy'', weights ''completeness'', weights ''clarity'') of
           (Some wa, Some wc, Some wl) \<Rightarrow>
             Inr \<lparr>total_score = acc_score acc * wa + comp_score comp * wc + clar_score clar * wl,
                  accuracy = acc, completeness = comp, clarity = clar,
                  rubric_weights = weights\<rparr>
         | _ \<Rightarrow> Inl KeyError)"

subsection \<open>\<^verbatim>\<open>enhanced_scorer.py\<close>: \<^verbatim>\<open>FeedbackGenerator\<close> and \<^verbatim>\<open>enhanced_assessment\<close>\<close>

record detailed_feedback =
  fb_overall :: string
  fb_accuracy :: string
  fb_completeness :: string
  fb_clarity :: string
  fb_improvements :: "string list"
  fb_strengths :: "string list"








definition bind_err :: "py_error + 'a \<Rightarrow> ('a \<Rightarrow> py_error + 'b) \<Rightarrow> py_error + 'b" where
  "bind_err m f = (case m of Inl e \<Rightarrow> Inl e | Inr x \<Rightarrow> f x)"



subsection \<open>\<^verbatim>\<open>services/assessment_service.py\<close>\<close>

record assessment_dict =
  ad_similarity_score :: real
  ad_awarded_score :: int
  ad_feedback :: string

text \<open>Subscripting a tuple with a string key raises \<^verbatim>\<open>TypeError\<close> (tuple indices
  must be integers or slices).\<close>

definition tuple_getitem_str :: "'a \<times> 'b \<Rightarrow> string \<Rightarrow> py_error + 'c" where
  "tuple_getitem_str t key = Inl TypeError"

text \<open>\<^verbatim>\<open>assess_single_answer\<close> passes its arguments to \<^verbatim>\<open>assess_answer\<close>
  positionally, model answer first, and subscripts the returned tuple with string keys.\<close>

definition assess_single_answer ::
  "(string \<Rightarrow> 'v) \<Rightarrow> ('v \<Rightarrow> 'v \<Rightarrow> real) \<Rightarrow> string \<Rightarrow> string \<Rightarrow> int \<Rightarrow> py_error + assessment_dict"
  where
  "assess_single_answer enc cosine model_answer student_answer max_score =
     (let result = assess_answer enc cosine model_answer student_answer max_score
      in bind_err (tuple_getitem_str result ''similarity'') (\<lambda>similarity.
         bind_err (tuple_getitem_str result ''score'') (\<lambda>score.
         bind_err (tuple_getitem_str result ''feedback'') (\<lambda>feedback.
           Inr \<lparr>ad_similarity_score = py_round_nd similarity 3,
                ad_awarded_score = score, ad_feedback = feedback\<rparr>))))"

definition assess_with_vectors ::
  "(string \<Rightarrow> 'v) \<Rightarrow> ('v \<Rightarrow> 'v \<Rightarrow> real) \<Rightarrow> 'v \<Rightarrow> string \<Rightarrow> int \<Rightarrow> assessment_dict" where
  "assess_with_vectors enc cosine model_vector student_answer max_score =
     (let student_vec = enc student_answer;
          similarity = compute_similarity cosine model_vector student_vec;
          score = map_similarity_to_score similarity max_score;
          feedback = generate_feedback similarity
      in \<lparr>ad_similarity_score = py_round_nd similarity 3,
          ad_awarded_score = score, ad_feedback = feedback\<rparr>)"


subsection \<open>\<^verbatim>\<open>services/batch_service.py\<close>\<close>





subsection \<open>\<^verbatim>\<open>crud/paper_crud.py\<close>\<close>


subsection \<open>\<^verbatim>\<open>services/paper_service.py\<close>: \<^verbatim>\<open>PaperGrader\<close>\<close>

text \<open>
  The grader receives what \<^verbatim>\<open>get_paper_with_questions\<close> returns: \<open>None\<close> for an unknown
  paper, otherwise the paper's total marks and its questions in question-number order.
  The database writes (student, submission and response records) are left out: they do not
  feed back into the returned result. The submission is the list of
  \<^verbatim>\<open>{"question_number", "answer"}\<close> entries.
\<close>

record question =
  question_number :: int
  question_text :: string
  model_answer :: string
  marks_allocated :: int


datatype feedback = PlainText string | Structured detailed_feedback















subsection \<open>The entry stored for one concept\<close>

text \<open>The value that the loop of \<^verbatim>\<open>match_concepts\<close> assigns to a concept, as a function
  of the student's phrases: the row of the similarity matrix for the concept is the list of
  the concept's similarities to the phrases.\<close>

definition concept_entry ::
  "(string \<Rightarrow> 'v) \<Rightarrow> ('v \<Rightarrow> 'v \<Rightarrow> real) \<Rightarrow> string list \<Rightarrow> string \<Rightarrow> concept_match" where
  "concept_entry enc cosine student_phrases concept =
     (if student_phrases = [] then
        \<lparr>cm_matched = False, cm_score = 0, cm_matched_phrase = None\<rparr>
      else
        (let row = map (\<lambda>p. cosine (enc concept) (enc p)) student_phrases;
             best_match_idx = argmax row;
             best_score = row ! best_match_idx
         in \<lparr>cm_matched = (best_score \<ge> concept_threshold),
             cm_score = best_score,
             cm_matched_phrase =
               (if best_score \<ge> concept_threshold
                then Some (student_phrases ! best_match_idx) else None)\<rparr>))"

subsection \<open>Notions used to state the paper-level results\<close>




subsection \<open>The result of one batch item\<close>


subsection \<open>A fixed encoder and similarity for concrete runs\<close>

text \<open>\<open>demo_enc\<close> takes a text as its own embedding; \<open>demo_cosine\<close> is 1 on equal
  embeddings and 0 otherwise; \<open>half_cosine\<close> is constantly one half, \<open>one_cosine\<close>
  constantly one.\<close>

definition demo_enc :: "string \<Rightarrow> string" where
  "demo_enc t = t"

definition demo_cosine :: "string \<Rightarrow> string \<Rightarrow> real" where
  "demo_cosine u v = (if u = v then 1 else 0)"





section \<open>Properties\<close>

subsection \<open>Arithmetic helpers\<close>

lemma py_int_nonneg: "0 \<le> x \<Longrightarrow> py_int x = \<lfloor>x\<rfloor>"
  by (simp add: py_int_def)



subsection \<open>The basic scorer's bands\<close>




subsection \<open>The single-answer service\<close>

text \<open>
  C2 (the code fails the claim). \<^verbatim>\<open>assess_single_answer\<close> never returns the dictionary of
  similarity, awarded score and feedback: \<^verbatim>\<open>assess_answer\<close> hands back the pair
  \<^verbatim>\<open>(similarity, score)\<close>, and subscripting it with \<^verbatim>\<open>'similarity'\<close> raises
  \<^verbatim>\<open>TypeError\<close>, for every encoder, every pair of answers and every maximum score.
\<close>

theorem assess_single_answer_raises:
  "assess_single_answer enc cosine reference candidate max_score = Inl TypeError"
  by (simp add: assess_single_answer_def tuple_getitem_str_def bind_err_def)

subsection \<open>Bounds on the rubric sub-scores\<close>

lemma length_update_le: "length (AList.update k v al) \<le> Suc (length al)"
  by (induction al) auto

lemma length_fold_update:
  "length (fold (\<lambda>p. AList.update (kf p) (vf p)) ps al) \<le> length al + length ps"
proof (induction ps arbitrary: al)
  case Nil
  then show ?case by simp
next
  case (Cons p ps)
  have "length (fold (\<lambda>p. AList.update (kf p) (vf p)) ps (AList.update (kf p) (vf p) al))
          \<le> length (AList.update (kf p) (vf p) al) + length ps"
    by (rule Cons.IH)
  also have "\<dots> \<le> Suc (length al) + length ps"
    using length_update_le [of "kf p" "vf p" al] by simp
  finally show ?case by simp
qed

lemma length_match_concepts:
  "length (match_concepts enc cosine key_concepts student_answer) \<le> length key_concepts"
proof -
  have a: "length (fold (\<lambda>concept. AList.update concept v) key_concepts []) \<le> length key_concepts" for v :: concept_match
    using length_fold_update [of "\<lambda>c. c" "\<lambda>c. v" key_concepts "[]"] by simp
  have b: "length (fold (\<lambda>(i, concept) results. AList.update concept (g i concept) results)
                     (List.enumerate 0 key_concepts) []) \<le> length key_concepts" for g :: "nat \<Rightarrow> string \<Rightarrow> concept_match"
    using length_fold_update [of snd "\<lambda>p. g (fst p) (snd p)" "List.enumerate 0 key_concepts" "[]"]
    by (simp add: split_def)
  show ?thesis
    unfolding match_concepts_def Let_def
    using a b by (simp)
qed

lemma acc_score_bounds:
  "0 \<le> acc_score (score_accuracy enc cosine m s) \<and> acc_score (score_accuracy enc cosine m s) \<le> 1"
  by (simp add: score_accuracy_def Let_def)

lemma concept_coverage_bounds:
  "0 \<le> concept_coverage (score_completeness enc cosine m s)
   \<and> concept_coverage (score_completeness enc cosine m s) \<le> 1"
proof -
  let ?kc = "identify_key_concepts m 5"
  let ?n = "length (filter cm_matched (map snd (match_concepts enc cosine ?kc s)))"
  have "?n \<le> length (match_concepts enc cosine ?kc s)"
    using length_filter_le [of cm_matched "map snd (match_concepts enc cosine ?kc s)"] by simp
  then have le: "?n \<le> length ?kc"
    using length_match_concepts [of enc cosine ?kc s] by linarith
  have cov: "concept_coverage (score_completeness enc cosine m s)
               = (if ?kc \<noteq> [] then real ?n / real (length ?kc) else 0)"
    by (simp add: score_completeness_def Let_def)
  show ?thesis
    unfolding cov using le by (simp add: divide_le_eq_1)
qed

lemma length_ratio_bounds:
  "0 \<le> length_ratio (score_completeness enc cosine m s)
   \<and> length_ratio (score_completeness enc cosine m s) \<le> 1"
  by (simp add: score_completeness_def Let_def)

lemma comp_score_eq:
  "comp_score (score_completeness enc cosine m s)
     = length_ratio (score_completeness enc cosine m s) * 0.3
       + concept_coverage (score_completeness enc cosine m s) * 0.7"
  by (simp add: score_completeness_def Let_def)

lemma comp_score_bounds:
  "0 \<le> comp_score (score_completeness enc cosine m s)
   \<and> comp_score (score_completeness enc cosine m s) \<le> 1"
  using length_ratio_bounds [of enc cosine m s] concept_coverage_bounds [of enc cosine m s]
  unfolding comp_score_eq by linarith

lemma clar_score_bounds:
  "0.35 \<le> clar_score (score_clarity s) \<and> clar_score (score_clarity s) \<le> 1"
proof -
  define avg where "avg = avg_sentence_length (score_clarity s)"
  define t where "t = max 0.5 (1 - \<bar>avg - 15\<bar> / 30)"
  define ss where "ss = (if 10 \<le> avg \<and> avg \<le> 20 then 1 else t)"
  define ps where "ps = (if has_punctuation (score_clarity s) then 1 else 0.5::real)"
  define ls where "ls = min (real (word_count (score_clarity s)) / 20) 1"
  have eq: "clar_score (score_clarity s) = ss * 0.4 + ps * 0.3 + ls * 0.3"
    by (simp add: score_clarity_def Let_def ss_def t_def ps_def ls_def avg_def)
  have "0.5 \<le> t"
    unfolding t_def by (rule max.cobounded1)
  moreover have "t \<le> 1"
    unfolding t_def by (rule max.boundedI) simp_all
  ultimately have "0.5 \<le> ss \<and> ss \<le> 1"
    by (simp add: ss_def)
  moreover have "0.5 \<le> ps \<and> ps \<le> 1"
    by (simp add: ps_def)
  moreover have "0 \<le> ls \<and> ls \<le> 1"
    by (simp add: ls_def)
  ultimately show ?thesis
    unfolding eq by simp
qed

lemma score_with_rubric_default:
  "score_with_rubric enc cosine m s None =
     Inr \<lparr>total_score = acc_score (score_accuracy enc cosine m s) * 0.5
                        + comp_score (score_completeness enc cosine m s) * 0.35
                        + clar_score (score_clarity s) * 0.15,
          accuracy = score_accuracy enc cosine m s,
          completeness = score_completeness enc cosine m s,
          clarity = score_clarity s,
          rubric_weights = default_weights\<rparr>"
  by (simp add: score_with_rubric_def default_weights_def Let_def)

text \<open>
  C4. With the default weights the rubric scorer returns a result whose total is
  \<open>0.5 * accuracy + 0.35 * completeness + 0.15 * clarity\<close>, and each of the three
  sub-scores lies in \<open>[0, 1]\<close>.
\<close>

theorem score_with_rubric_default_total:
  "\<exists>r. score_with_rubric enc cosine reference candidate None = Inr r
       \<and> total_score r = 0.5 * acc_score (accuracy r) + 0.35 * comp_score (completeness r)
                          + 0.15 * clar_score (clarity r)
       \<and> 0 \<le> acc_score (accuracy r) \<and> acc_score (accuracy r) \<le> 1
       \<and> 0 \<le> comp_score (completeness r) \<and> comp_score (completeness r) \<le> 1
       \<and> 0 \<le> clar_score (clarity r) \<and> clar_score (clarity r) \<le> 1"
proof -
  have clar: "0 \<le> clar_score (score_clarity candidate) \<and> clar_score (score_clarity candidate) \<le> 1"
    using clar_score_bounds [of candidate] by simp
  show ?thesis
    unfolding score_with_rubric_default
    using acc_score_bounds [of enc cosine reference candidate]
      comp_score_bounds [of enc cosine reference candidate] clar
    by simp
qed

text \<open>
  C10. The clarity sub-score of every answer is at least 0.35, a value reached by the empty
  answer; hence with the default weights every scored answer has a weighted total of at
  least 0.0525.
\<close>

theorem clarity_floor:
  "0.35 \<le> clar_score (score_clarity candidate)
   \<and> clar_score (score_clarity []) = 0.35
   \<and> (\<exists>r. score_with_rubric enc cosine reference candidate None = Inr r
            \<and> 0.0525 \<le> total_score r)"
proof -
  have c: "0.35 \<le> clar_score (score_clarity candidate)"
    using clar_score_bounds [of candidate] by simp
  have e: "clar_score (score_clarity []) = 0.35"
    by (simp add: score_clarity_def split_ws_def)
  have a: "0 \<le> acc_score (score_accuracy enc cosine reference candidate)"
    using acc_score_bounds [of enc cosine reference candidate] by simp
  have b: "0 \<le> comp_score (score_completeness enc cosine reference candidate)"
    using comp_score_bounds [of enc cosine reference candidate] by simp
  have "0.0525 \<le> acc_score (score_accuracy enc cosine reference candidate) * 0.5
                  + comp_score (score_completeness enc cosine reference candidate) * 0.35
                  + clar_score (score_clarity candidate) * 0.15"
    using a b c by simp
  then show ?thesis
    unfolding score_with_rubric_default using c e by simp
qed

subsection \<open>Phrase extraction\<close>




subsection \<open>Concept matching\<close>

lemma argmax_less: "xs \<noteq> [] \<Longrightarrow> argmax xs < length xs"
proof -
  assume ne: "xs \<noteq> []"
  then have "Max (set xs) \<in> set xs"
    by (intro Max_in) simp_all
  then have "takeWhile (\<lambda>x. x \<noteq> Max (set xs)) xs \<noteq> xs"
    by (metis (mono_tags, lifting) takeWhile_eq_all_conv)
  moreover have "length (takeWhile (\<lambda>x. x \<noteq> Max (set xs)) xs) \<le> length xs"
    by (rule length_takeWhile_le)
  ultimately show ?thesis
    unfolding argmax_def
    by (metis le_neq_implies_less takeWhile_eq_take take_all_iff order_refl)
qed

lemma nth_argmax: "xs \<noteq> [] \<Longrightarrow> xs ! argmax xs = Max (set xs)"
  using argmax_less [of xs] nth_length_takeWhile [of "\<lambda>x. x \<noteq> Max (set xs)" xs]
  by (simp add: argmax_def)

lemma fold_update_map_of:
  "map_of (fold (\<lambda>c. AList.update c (e c)) ks al) k
     = (if k \<in> set ks then Some (e k) else map_of al k)"
proof (induction ks arbitrary: al)
  case Nil
  then show ?case by simp
next
  case (Cons c ks)
  show ?case
    by (simp add: Cons.IH update_conv')
qed

lemma fold_enumerate_snd:
  assumes "\<And>i c. (i, c) \<in> set (List.enumerate 0 ks) \<Longrightarrow> f (i, c) = g c"
  shows "fold f (List.enumerate 0 ks) al = fold g ks al"
proof -
  have "fold f (List.enumerate 0 ks) al = fold (g \<circ> snd) (List.enumerate 0 ks) al"
    by (rule fold_cong) (use assms in auto)
  also have "\<dots> = fold g (map snd (List.enumerate 0 ks)) al"
    by (simp only: fold_map)
  also have "\<dots> = fold g ks al"
    by (simp only: map_snd_enumerate)
  finally show ?thesis .
qed

lemma match_concepts_fold:
  "match_concepts enc cosine key_concepts candidate
     = fold (\<lambda>c. AList.update c (concept_entry enc cosine (extract_key_phrases candidate 2) c))
         key_concepts []"
proof (cases "key_concepts = []")
  case True
  then show ?thesis by (simp add: match_concepts_def)
next
  case kc: False
  let ?ps = "extract_key_phrases candidate 2"
  show ?thesis
  proof (cases "?ps = []")
    case True
    then show ?thesis
      using kc by (simp add: match_concepts_def concept_entry_def)
  next
    case ps: False
    let ?mat = "map (\<lambda>u. map (cosine u) (map enc ?ps)) (map enc key_concepts)"
    let ?f = "\<lambda>(i, concept) results.
                let best_match_idx = argmax (?mat ! i);
                    best_score = ?mat ! i ! best_match_idx
                in AList.update concept
                     \<lparr>cm_matched = (best_score \<ge> concept_threshold),
                      cm_score = best_score,
                      cm_matched_phrase =
                        (if best_score \<ge> concept_threshold
                         then Some (?ps ! best_match_idx) else None)\<rparr>
                     results"
    have row: "?mat ! i = map (\<lambda>p. cosine (enc c) (enc p)) ?ps"
      if "(i, c) \<in> set (List.enumerate 0 key_concepts)" for i c
      using that by (auto simp: in_set_enumerate_eq)
    have step: "?f (i, c) = AList.update c (concept_entry enc cosine ?ps c)"
      if "(i, c) \<in> set (List.enumerate 0 key_concepts)" for i c
      using ps row [OF that] by (simp add: concept_entry_def Let_def)
    have "match_concepts enc cosine key_concepts candidate
            = fold ?f (List.enumerate 0 key_concepts) []"
      by (simp only: match_concepts_def Let_def kc ps if_False)
    also have "\<dots> = fold (\<lambda>c. AList.update c (concept_entry enc cosine ?ps c)) key_concepts []"
      by (rule fold_enumerate_snd) (rule step)
    finally show ?thesis .
  qed
qed

lemma concept_entry_nonempty:
  assumes "ps \<noteq> []"
  shows "\<exists>idx < length ps.
           (\<forall>p \<in> set ps. cosine (enc c) (enc p) \<le> cosine (enc c) (enc (ps ! idx)))
           \<and> concept_entry enc cosine ps c =
               \<lparr>cm_matched = (concept_threshold \<le> cosine (enc c) (enc (ps ! idx))),
                cm_score = cosine (enc c) (enc (ps ! idx)),
                cm_matched_phrase =
                  (if concept_threshold \<le> cosine (enc c) (enc (ps ! idx))
                   then Some (ps ! idx) else None)\<rparr>"
proof -
  let ?row = "map (\<lambda>p. cosine (enc c) (enc p)) ps"
  have ne: "?row \<noteq> []"
    using assms by simp
  have lt: "argmax ?row < length ps"
    using argmax_less [OF ne] by simp
  have best: "?row ! argmax ?row = Max (set ?row)"
    by (rule nth_argmax [OF ne])
  have val: "?row ! argmax ?row = cosine (enc c) (enc (ps ! argmax ?row))"
    using lt by simp
  have top: "\<forall>p \<in> set ps. cosine (enc c) (enc p) \<le> cosine (enc c) (enc (ps ! argmax ?row))"
  proof
    fix p assume "p \<in> set ps"
    then have "cosine (enc c) (enc p) \<in> set ?row"
      by simp
    then have "cosine (enc c) (enc p) \<le> Max (set ?row)"
      by (intro Max_ge) simp_all
    then show "cosine (enc c) (enc p) \<le> cosine (enc c) (enc (ps ! argmax ?row))"
      using best val by simp
  qed
  have "concept_entry enc cosine ps c =
               \<lparr>cm_matched = (concept_threshold \<le> cosine (enc c) (enc (ps ! argmax ?row))),
                cm_score = cosine (enc c) (enc (ps ! argmax ?row)),
                cm_matched_phrase =
                  (if concept_threshold \<le> cosine (enc c) (enc (ps ! argmax ?row))
                   then Some (ps ! argmax ?row) else None)\<rparr>"
    using assms lt by (simp add: concept_entry_def Let_def)
  with lt top show ?thesis
    by blast
qed

lemma concept_entry_matched:
  "cm_matched (concept_entry enc cosine ps c)
     \<longleftrightarrow> (\<exists>p \<in> set ps. concept_threshold \<le> cosine (enc c) (enc p))"
proof (cases "ps = []")
  case True
  then show ?thesis by (simp add: concept_entry_def)
next
  case False
  from concept_entry_nonempty [OF False, of cosine enc c]
  obtain idx where idx: "idx < length ps"
    and top: "\<forall>p \<in> set ps. cosine (enc c) (enc p) \<le> cosine (enc c) (enc (ps ! idx))"
    and ent: "cm_matched (concept_entry enc cosine ps c)
                = (concept_threshold \<le> cosine (enc c) (enc (ps ! idx)))"
    by force
  show ?thesis
  proof
    assume "cm_matched (concept_entry enc cosine ps c)"
    then have "concept_threshold \<le> cosine (enc c) (enc (ps ! idx))"
      using ent by simp
    moreover have "ps ! idx \<in> set ps"
      using idx by simp
    ultimately show "\<exists>p \<in> set ps. concept_threshold \<le> cosine (enc c) (enc p)"
      by blast
  next
    assume "\<exists>p \<in> set ps. concept_threshold \<le> cosine (enc c) (enc p)"
    then obtain p where "p \<in> set ps" "concept_threshold \<le> cosine (enc c) (enc p)"
      by blast
    then have "concept_threshold \<le> cosine (enc c) (enc (ps ! idx))"
      using top by force
    then show "cm_matched (concept_entry enc cosine ps c)"
      using ent by simp
  qed
qed

text \<open>
  C5. For a concept of a (hence non-empty) list of key concepts: if no candidate phrase is
  extracted the concept is reported unmatched with score 0 and no phrase; otherwise it is
  paired with a candidate phrase of maximum cosine similarity, matched exactly when that
  similarity is at least 0.65, the phrase being recorded only when matched. The reported
  keys are exactly the key concepts.
\<close>

theorem match_concepts_best_phrase:
  assumes "concept \<in> set key_concepts"
  shows "(extract_key_phrases candidate 2 = [] \<longrightarrow>
            map_of (match_concepts enc cosine key_concepts candidate) concept
              = Some \<lparr>cm_matched = False, cm_score = 0, cm_matched_phrase = None\<rparr>)
         \<and> (extract_key_phrases candidate 2 \<noteq> [] \<longrightarrow>
            (\<exists>idx < length (extract_key_phrases candidate 2).
               (\<forall>p \<in> set (extract_key_phrases candidate 2).
                  cosine (enc concept) (enc p)
                    \<le> cosine (enc concept) (enc (extract_key_phrases candidate 2 ! idx)))
               \<and> map_of (match_concepts enc cosine key_concepts candidate) concept
                   = Some \<lparr>cm_matched =
                             (0.65 \<le> cosine (enc concept) (enc (extract_key_phrases candidate 2 ! idx))),
                           cm_score = cosine (enc concept) (enc (extract_key_phrases candidate 2 ! idx)),
                           cm_matched_phrase =
                             (if 0.65 \<le> cosine (enc concept)
                                           (enc (extract_key_phrases candidate 2 ! idx))
                              then Some (extract_key_phrases candidate 2 ! idx) else None)\<rparr>))
         \<and> fst ` set (match_concepts enc cosine key_concepts candidate) = set key_concepts"
proof -
  let ?ps = "extract_key_phrases candidate 2"
  let ?al = "match_concepts enc cosine key_concepts candidate"
  have look: "map_of ?al k = (if k \<in> set key_concepts then Some (concept_entry enc cosine ?ps k) else None)"
    for k
    unfolding match_concepts_fold by (simp add: fold_update_map_of)
  have here: "map_of ?al concept = Some (concept_entry enc cosine ?ps concept)"
    using look [of concept] assms by simp
  have empty: "?ps = [] \<longrightarrow>
         map_of ?al concept = Some \<lparr>cm_matched = False, cm_score = 0, cm_matched_phrase = None\<rparr>"
    unfolding here by (simp add: concept_entry_def)
  have nonempty: "?ps \<noteq> [] \<longrightarrow>
            (\<exists>idx < length ?ps.
               (\<forall>p \<in> set ?ps. cosine (enc concept) (enc p) \<le> cosine (enc concept) (enc (?ps ! idx)))
               \<and> map_of ?al concept
                   = Some \<lparr>cm_matched = (0.65 \<le> cosine (enc concept) (enc (?ps ! idx))),
                           cm_score = cosine (enc concept) (enc (?ps ! idx)),
                           cm_matched_phrase =
                             (if 0.65 \<le> cosine (enc concept) (enc (?ps ! idx))
                              then Some (?ps ! idx) else None)\<rparr>)"
  proof
    assume "?ps \<noteq> []"
    from concept_entry_nonempty [OF this, of cosine enc concept]
    show "\<exists>idx < length ?ps.
               (\<forall>p \<in> set ?ps. cosine (enc concept) (enc p) \<le> cosine (enc concept) (enc (?ps ! idx)))
               \<and> map_of ?al concept
                   = Some \<lparr>cm_matched = (0.65 \<le> cosine (enc concept) (enc (?ps ! idx))),
                           cm_score = cosine (enc concept) (enc (?ps ! idx)),
                           cm_matched_phrase =
                             (if 0.65 \<le> cosine (enc concept) (enc (?ps ! idx))
                              then Some (?ps ! idx) else None)\<rparr>"
      unfolding here concept_threshold_def by simp
  qed
  have "dom (map_of ?al) = set key_concepts"
    by (auto simp: look dom_def)
  then have keys: "fst ` set ?al = set key_concepts"
    by (simp add: dom_map_of_conv_image_fst)
  from empty nonempty keys show ?thesis
    by blast
qed

theorem match_concepts_best_phrase_witness:
  "''c d'' \<in> set [''a b'', ''c d'']
   \<and> extract_key_phrases ''c d, x.'' 2 \<noteq> []
   \<and> map_of (match_concepts demo_enc demo_cosine [''a b'', ''c d''] ''c d, x.'') ''c d''
       = Some \<lparr>cm_matched = True, cm_score = 1, cm_matched_phrase = Some ''c d''\<rparr>
   \<and> extract_key_phrases [] 2 = []
   \<and> map_of (match_concepts demo_enc demo_cosine [''a b'', ''c d''] []) ''c d''
       = Some \<lparr>cm_matched = False, cm_score = 0, cm_matched_phrase = None\<rparr>"
proof -
  have m: "''c d'' \<in> set [''a b'', ''c d'']"
    by simp
  have e: "extract_key_phrases [] 2 = []"
    by code_simp
  have n: "extract_key_phrases ''c d, x.'' 2 \<noteq> []"
    by code_simp
  have v: "map_of (match_concepts demo_enc demo_cosine [''a b'', ''c d''] ''c d, x.'') ''c d''
       = Some \<lparr>cm_matched = True, cm_score = 1, cm_matched_phrase = Some ''c d''\<rparr>"
    by code_simp
  from match_concepts_best_phrase [OF m, of "[]" demo_enc demo_cosine] e
  have "map_of (match_concepts demo_enc demo_cosine [''a b'', ''c d''] []) ''c d''
       = Some \<lparr>cm_matched = False, cm_score = 0, cm_matched_phrase = None\<rparr>"
    by simp
  with m e n v show ?thesis by simp
qed

subsection \<open>Monotonicity of the concept coverage\<close>

lemma update_list_all2:
  assumes "list_all2 (\<lambda>x y. fst x = fst y \<and> (P (snd x) \<longrightarrow> P (snd y))) al1 al2"
    and "P v1 \<longrightarrow> P v2"
  shows "list_all2 (\<lambda>x y. fst x = fst y \<and> (P (snd x) \<longrightarrow> P (snd y)))
           (AList.update k v1 al1) (AList.update k v2 al2)"
  using assms(1)
proof (induction rule: list_all2_induct)
  case Nil
  then show ?case using assms(2) by simp
next
  case (Cons x xs y ys)
  then show ?case using assms(2) by (cases x; cases y) auto
qed

lemma fold_update_list_all2:
  assumes "\<forall>c \<in> set ks. P (e1 c) \<longrightarrow> P (e2 c)"
    and "list_all2 (\<lambda>x y. fst x = fst y \<and> (P (snd x) \<longrightarrow> P (snd y))) al1 al2"
  shows "list_all2 (\<lambda>x y. fst x = fst y \<and> (P (snd x) \<longrightarrow> P (snd y)))
           (fold (\<lambda>c. AList.update c (e1 c)) ks al1) (fold (\<lambda>c. AList.update c (e2 c)) ks al2)"
  using assms
proof (induction ks arbitrary: al1 al2)
  case Nil
  then show ?case by simp
next
  case (Cons c ks)
  have "list_all2 (\<lambda>x y. fst x = fst y \<and> (P (snd x) \<longrightarrow> P (snd y)))
          (AList.update c (e1 c) al1) (AList.update c (e2 c) al2)"
    using Cons.prems by (intro update_list_all2) simp_all
  then show ?case
    using Cons.IH Cons.prems(1) by simp
qed

lemma count_list_all2:
  assumes "list_all2 (\<lambda>x y. fst x = fst y \<and> (P (snd x) \<longrightarrow> P (snd y))) al1 al2"
  shows "length (filter P (map snd al1)) \<le> length (filter P (map snd al2))"
  using assms by (induction rule: list_all2_induct) auto

lemma matched_count_mono:
  assumes "set (extract_key_phrases s1 2) \<subseteq> set (extract_key_phrases s2 2)"
  shows "length (filter cm_matched (map snd (match_concepts enc cosine kc s1)))
           \<le> length (filter cm_matched (map snd (match_concepts enc cosine kc s2)))"
proof -
  have "\<forall>c \<in> set kc. cm_matched (concept_entry enc cosine (extract_key_phrases s1 2) c)
                        \<longrightarrow> cm_matched (concept_entry enc cosine (extract_key_phrases s2 2) c)"
    using assms unfolding concept_entry_matched by blast
  then have "list_all2 (\<lambda>x y. fst x = fst y \<and> (cm_matched (snd x) \<longrightarrow> cm_matched (snd y)))
               (match_concepts enc cosine kc s1) (match_concepts enc cosine kc s2)"
    unfolding match_concepts_fold by (intro fold_update_list_all2) simp_all
  then show ?thesis
    by (rule count_list_all2)
qed

text \<open>
  C7. For a fixed model answer, if every phrase extracted from a first candidate answer is
  also extracted from a second one, the concept coverage of the second is at least that of
  the first.
\<close>

theorem concept_coverage_mono:
  assumes "set (extract_key_phrases candidate1 2) \<subseteq> set (extract_key_phrases candidate2 2)"
  shows "concept_coverage (score_completeness enc cosine reference candidate1)
           \<le> concept_coverage (score_completeness enc cosine reference candidate2)"
proof -
  let ?kc = "identify_key_concepts reference 5"
  have cov: "concept_coverage (score_completeness enc cosine reference s)
               = (if ?kc \<noteq> []
                  then real (length (filter cm_matched (map snd (match_concepts enc cosine ?kc s))))
                         / real (length ?kc)
                  else 0)" for s
    by (simp add: score_completeness_def Let_def)
  show ?thesis
    unfolding cov using matched_count_mono [OF assms, of enc cosine ?kc]
    by (simp add: divide_right_mono)
qed

theorem concept_coverage_mono_witness:
  "set (extract_key_phrases ''a b.'' 2) \<subseteq> set (extract_key_phrases ''a b. c d.'' 2)
   \<and> concept_coverage (score_completeness demo_enc demo_cosine ''c d, e f.'' ''a b.'') = 0
   \<and> concept_coverage (score_completeness demo_enc demo_cosine ''c d, e f.'' ''a b. c d.'') = 1 / 3
   \<and> concept_coverage (score_completeness demo_enc demo_cosine ''c d, e f.'' ''a b.'')
       \<le> concept_coverage (score_completeness demo_enc demo_cosine ''c d, e f.'' ''a b. c d.'')"
proof -
  have sub: "set (extract_key_phrases ''a b.'' 2) \<subseteq> set (extract_key_phrases ''a b. c d.'' 2)"
    by code_simp
  have c1: "concept_coverage (score_completeness demo_enc demo_cosine ''c d, e f.'' ''a b.'') = 0"
    by code_simp
  have c2: "concept_coverage (score_completeness demo_enc demo_cosine ''c d, e f.'' ''a b. c d.'') = 1 / 3"
    by code_simp
  from sub c1 c2 concept_coverage_mono [OF sub, of demo_enc demo_cosine "''c d, e f.''"]
  show ?thesis by simp
qed

subsection \<open>The grading loops\<close>








subsection \<open>Unanswered questions\<close>







subsection \<open>Paper totals, percentage and grade\<close>










subsection \<open>Blank text and non-positive marks\<close>






end
